theory Spec2Isabelle
  imports Main
begin

section \<open>Syntax trees\<close>

text \<open>
  The generator works on the trees of Go's \<^verbatim>\<open>go/ast\<close> package. The fragment below
  has the node kinds the generator inspects (identifiers, basic literals, selectors,
  calls, index expressions, function literals, return statements, declarations and value
  specifications) and enough further kinds (composite literals, unary, binary and
  parenthesised expressions, assignments, blocks, function declarations, import and type
  specifications) to give every type switch of the source an "anything else" branch.
  A field of type \<^verbatim>\<open>*ast.Ident\<close> holds its \<^verbatim>\<open>Name\<close>; a \<^verbatim>\<open>*ast.FuncType\<close> is given by
  its parameter fields and its result field list (\<open>None\<close> for a \<^verbatim>\<open>nil\<close> list); a
  \<^verbatim>\<open>*ast.CommentGroup\<close> is the list of the \<^verbatim>\<open>Text\<close>s of its comments.
\<close>

text \<open>The tokens \<^verbatim>\<open>token.IMPORT\<close>, \<^verbatim>\<open>CONST\<close>, \<^verbatim>\<open>TYPE\<close> and \<^verbatim>\<open>VAR\<close> of a declaration.\<close>

datatype token = tokIMPORT | tokCONST | tokTYPE | tokVAR

datatype expr =
    Ident string
  | BasicLit string
  | SelectorExpr expr string
  | CallExpr expr "expr list"
  | IndexExpr expr expr
  | FuncLit "field list" "field list option" "stmt list"
  | CompositeLit expr "expr list"
  | UnaryExpr string expr
  | BinaryExpr expr string expr
  | ParenExpr expr
and field =
    Field "string list" expr
and stmt =
    ReturnStmt "expr list"
  | DeclStmt decl
  | ExprStmt expr
  | AssignStmt "expr list" "expr list"
  | BlockStmt "stmt list"
and decl =
    GenDecl token "string list option" "spec list"
  | FuncDecl string "field list" "field list option" "stmt list option"
and spec =
    ValueSpec "string list" "expr option" "expr list"
  | TypeSpec string expr
  | ImportSpec string

datatype ast_file = File string "decl list"

section \<open>The schema\<close>

record ValidatorCall =
  Method :: string
  Args :: "string list"

record ValidationField =
  Name :: string
  Type :: string
  Validators :: "ValidatorCall list"

record ValidationSchema =
  TypeName :: string
  Fields :: "ValidationField list"

record Config =
  InputFile :: string
  OutputDir :: string
  Package :: string
  Verbose :: bool

section \<open>Extraction\<close>

text \<open>
  \<^verbatim>\<open>findRootCall\<close>: a \<^verbatim>\<open>*ast.CallExpr\<close> is given by its \<^verbatim>\<open>Fun\<close> and its \<^verbatim>\<open>Args\<close>.
  The loop unwraps the receiver while the callee is a selector on another call.
\<close>

fun findRootCall :: "expr \<Rightarrow> expr list \<Rightarrow> expr \<times> expr list" where
  "findRootCall (SelectorExpr (CallExpr f as) sel) args = findRootCall f as"
| "findRootCall fn args = (fn, args)"

text \<open>\<^verbatim>\<open>inferFieldType\<close>: the first result's type when it is an identifier.\<close>

fun inferFieldType :: "field list option \<Rightarrow> string" where
  "inferFieldType (Some (Field names (Ident name) # rest)) = name"
| "inferFieldType results = ''interface{}''"

text \<open>
  The argument loop of \<^verbatim>\<open>extractValidators\<close>: one step appends the token of a basic
  literal or of an identifier, and leaves \<open>args\<close> as it is for any other expression.
\<close>

fun appendArg :: "expr \<Rightarrow> string list \<Rightarrow> string list" where
  "appendArg (BasicLit v) args = args @ [v]"
| "appendArg (Ident name) args = args @ [name]"
| "appendArg other args = args"

definition extractArgs :: "expr list \<Rightarrow> string list" where
  "extractArgs callArgs = fold appendArg callArgs []"

text \<open>
  The test that skips a type constructor: the method is \<^verbatim>\<open>String\<close> or \<^verbatim>\<open>Int\<close>, there
  are no arguments, and the receiver is the identifier \<^verbatim>\<open>validate\<close>.
\<close>

fun isValidateIdent :: "expr \<Rightarrow> bool" where
  "isValidateIdent (Ident name) = (name = ''validate'')"
| "isValidateIdent other = False"

definition isTypeConstructor :: "expr \<Rightarrow> string \<Rightarrow> expr list \<Rightarrow> bool" where
  "isTypeConstructor x methodName args =
     ((methodName = ''String'' \<or> methodName = ''Int'') \<and> length args = 0 \<and> isValidateIdent x)"

text \<open>
  The loop of \<^verbatim>\<open>extractValidators\<close>, with \<open>current\<close> and \<open>validators\<close> as its state.
  Each recorded call goes to the front of \<open>validators\<close>.
\<close>

fun extractValidatorsLoop :: "expr \<Rightarrow> ValidatorCall list \<Rightarrow> ValidatorCall list" where
  "extractValidatorsLoop (CallExpr (SelectorExpr x methodName) args) validators =
     (if isTypeConstructor x methodName args
      then extractValidatorsLoop x validators
      else extractValidatorsLoop x
             (\<lparr>Method = methodName, Args = extractArgs args\<rparr> # validators))"
| "extractValidatorsLoop current validators = validators"

definition extractValidators :: "expr \<Rightarrow> ValidatorCall list" where
  "extractValidators e = extractValidatorsLoop e []"

text \<open>
  \<^verbatim>\<open>extractFieldValidation\<close>, on the \<^verbatim>\<open>Args\<close> of the call (its \<^verbatim>\<open>Fun\<close> is not read):
  two arguments, the first a function literal whose first statement is a return
  statement whose first result is a selector expression.
\<close>

fun extractFieldValidation :: "expr list \<Rightarrow> ValidationField option" where
  "extractFieldValidation [FuncLit params results (ReturnStmt (SelectorExpr x sel # rs) # body), v] =
     Some \<lparr>Name = sel, Type = inferFieldType results, Validators = extractValidators v\<rparr>"
| "extractFieldValidation args = None"

text \<open>
  The loop of \<^verbatim>\<open>extractValidationSchema\<close> that collects the \<^verbatim>\<open>Field\<close> calls, with
  \<open>current\<close> (as \<^verbatim>\<open>Fun\<close> and \<^verbatim>\<open>Args\<close>) and \<^verbatim>\<open>schema.Fields\<close> as its state.
\<close>

fun collectFields :: "expr \<Rightarrow> expr list \<Rightarrow> ValidationField list \<Rightarrow> ValidationField list" where
  "collectFields (SelectorExpr x sel) args flds =
     (let flds' =
        (if sel = ''Field''
         then (case extractFieldValidation args of
                 Some fld \<Rightarrow> fld # flds
               | None \<Rightarrow> flds)
         else flds)
      in (case x of
            CallExpr f as \<Rightarrow> collectFields f as flds'
          | _ \<Rightarrow> flds'))"
| "collectFields fn args flds = flds"

text \<open>The schema type read off the root call: \<^verbatim>\<open>validate.Struct[T]\<close> with \<open>T\<close> an identifier.\<close>

fun rootTypeName :: "expr \<Rightarrow> string option" where
  "rootTypeName (IndexExpr (SelectorExpr (Ident pkg) sel) (Ident typeIdent)) =
     (if pkg = ''validate'' \<and> sel = ''Struct'' then Some typeIdent else None)"
| "rootTypeName other = None"

fun extractValidationSchema :: "expr \<Rightarrow> ValidationSchema option" where
  "extractValidationSchema (CallExpr fn args) =
     (case rootTypeName (fst (findRootCall fn args)) of
        None \<Rightarrow> None
      | Some typeName \<Rightarrow> Some \<lparr>TypeName = typeName, Fields = collectFields fn args []\<rparr>)"
| "extractValidationSchema other = None"

section \<open>String functions of the Go standard library\<close>

text \<open>
  Go strings are byte sequences; \<open>string\<close> is the list of these bytes. \<^verbatim>\<open>strings.Index\<close>
  gives the position of the first occurrence of \<open>sep\<close>.
\<close>

definition HasPrefix :: "string \<Rightarrow> string \<Rightarrow> bool" where
  "HasPrefix s pre = (take (length pre) s = pre)"

definition HasSuffix :: "string \<Rightarrow> string \<Rightarrow> bool" where
  "HasSuffix s suf = (length suf \<le> length s \<and> drop (length s - length suf) s = suf)"

definition TrimSuffix :: "string \<Rightarrow> string \<Rightarrow> string" where
  "TrimSuffix s suf = (if HasSuffix s suf then take (length s - length suf) s else s)"

fun Index :: "string \<Rightarrow> string \<Rightarrow> nat option" where
  "Index [] sep = (if sep = [] then Some 0 else None)"
| "Index (c # cs) sep =
     (if HasPrefix (c # cs) sep then Some 0 else map_option Suc (Index cs sep))"

definition Contains :: "string \<Rightarrow> string \<Rightarrow> bool" where
  "Contains s substr = (Index s substr \<noteq> None)"

text \<open>
  \<^verbatim>\<open>strings.Split\<close> for a separator that is not empty, which is how the generator calls
  it: the pieces between the occurrences of \<open>sep\<close>, found from the left. (For an empty
  separator Go splits after each UTF-8 sequence; the branch below splits after each byte.)
\<close>

function Split :: "string \<Rightarrow> string \<Rightarrow> string list" where
  "Split s sep =
     (if sep = [] then map (\<lambda>c. [c]) s
      else (case Index s sep of
              None \<Rightarrow> [s]
            | Some i \<Rightarrow> take i s # Split (drop (i + length sep) s) sep))"
  by pat_completeness auto
termination
proof (relation "measure (\<lambda>(s, sep). length s)")
  show "wf (measure (\<lambda>(s, sep). length s))"
    by simp
next
  fix s sep :: string and i :: nat
  assume "sep \<noteq> []" and "Index s sep = Some i"
  then show "((drop (i + length sep) s, sep), (s, sep)) \<in> measure (\<lambda>(s, sep). length s)"
    by (cases s) auto
qed

declare Split.simps [simp del]

text \<open>
  \<^verbatim>\<open>strings.TrimSpace\<close> removes leading and trailing white space as Unicode defines it.
  On a UTF-8 byte string the white space characters are the byte sequences of
  \<open>unicodeSpaces\<close>: tab, line feed, vertical tab, form feed, carriage return, space,
  U+0085, U+00A0, U+1680, U+2000 to U+200A, U+2028, U+2029, U+202F, U+205F and U+3000.
\<close>

definition unicodeSpaces :: "string list" where
  "unicodeSpaces =
     [[CHR 0x09], [CHR 0x0A], [CHR 0x0B], [CHR 0x0C], [CHR 0x0D], [CHR 0x20],
      [CHR 0xC2, CHR 0x85], [CHR 0xC2, CHR 0xA0], [CHR 0xE1, CHR 0x9A, CHR 0x80],
      [CHR 0xE2, CHR 0x80, CHR 0x80], [CHR 0xE2, CHR 0x80, CHR 0x81],
      [CHR 0xE2, CHR 0x80, CHR 0x82], [CHR 0xE2, CHR 0x80, CHR 0x83],
      [CHR 0xE2, CHR 0x80, CHR 0x84], [CHR 0xE2, CHR 0x80, CHR 0x85],
      [CHR 0xE2, CHR 0x80, CHR 0x86], [CHR 0xE2, CHR 0x80, CHR 0x87],
      [CHR 0xE2, CHR 0x80, CHR 0x88], [CHR 0xE2, CHR 0x80, CHR 0x89],
      [CHR 0xE2, CHR 0x80, CHR 0x8A], [CHR 0xE2, CHR 0x80, CHR 0xA8],
      [CHR 0xE2, CHR 0x80, CHR 0xA9], [CHR 0xE2, CHR 0x80, CHR 0xAF],
      [CHR 0xE2, CHR 0x81, CHR 0x9F], [CHR 0xE3, CHR 0x80, CHR 0x80]]"

definition leadingSpace :: "string \<Rightarrow> nat" where
  "leadingSpace s =
     (case List.find (\<lambda>r. HasPrefix s r) unicodeSpaces of None \<Rightarrow> 0 | Some r \<Rightarrow> length r)"

definition trailingSpace :: "string \<Rightarrow> nat" where
  "trailingSpace s =
     (case List.find (\<lambda>r. HasSuffix s r) unicodeSpaces of None \<Rightarrow> 0 | Some r \<Rightarrow> length r)"

function TrimLeftSpace :: "string \<Rightarrow> string" where
  "TrimLeftSpace s =
     (if s = [] \<or> leadingSpace s = 0 then s else TrimLeftSpace (drop (leadingSpace s) s))"
  by pat_completeness auto
termination
  by (relation "measure length") auto

declare TrimLeftSpace.simps [simp del]

function TrimRightSpace :: "string \<Rightarrow> string" where
  "TrimRightSpace s =
     (if s = [] \<or> trailingSpace s = 0 then s
      else TrimRightSpace (take (length s - trailingSpace s) s))"
  by pat_completeness auto
termination
  by (relation "measure length") auto

declare TrimRightSpace.simps [simp del]

definition TrimSpace :: "string \<Rightarrow> string" where
  "TrimSpace s = TrimRightSpace (TrimLeftSpace s)"

section \<open>Scanning a file\<close>

text \<open>
  Lines 83 to 102 of \<^verbatim>\<open>findValidationSchemas\<close>: the type name of a schema whose
  \<^verbatim>\<open>TypeName\<close> is empty, for the value at index \<open>i\<close> of a value specification with the
  names \<open>names\<close>, in a declaration with the doc comment \<open>doc\<close>.
\<close>

definition docTypeName :: "string list option \<Rightarrow> ValidationSchema \<Rightarrow> ValidationSchema" where
  "docTypeName doc schema =
     (case doc of
        None \<Rightarrow> schema
      | Some [] \<Rightarrow> schema
      | Some (text # rest) \<Rightarrow>
          (if Contains text ''validation schema for''
           then (let parts = Split text ''validation schema for''
                 in if length parts > 1
                    then schema\<lparr>TypeName := TrimSpace (parts ! 1)\<rparr>
                    else schema)
           else schema))"

definition varTypeName :: "string \<Rightarrow> ValidationSchema \<Rightarrow> ValidationSchema" where
  "varTypeName varName schema =
     (if HasSuffix varName ''Schema''
      then schema\<lparr>TypeName := TrimSuffix varName ''Schema''\<rparr>
      else schema\<lparr>TypeName := varName\<rparr>)"

definition resolveTypeName ::
    "string list option \<Rightarrow> string list \<Rightarrow> nat \<Rightarrow> ValidationSchema \<Rightarrow> ValidationSchema" where
  "resolveTypeName doc names i schema =
     (if TypeName schema = [] \<and> i < length names
      then (let schema' = docTypeName doc schema
            in if TypeName schema' = [] then varTypeName (names ! i) schema' else schema')
      else schema)"

text \<open>
  The closure that \<^verbatim>\<open>findValidationSchemas\<close> passes to \<^verbatim>\<open>ast.Inspect\<close>, on a
  declaration node: the loops over the specifications and over their values, with
  \<open>schemas\<close> as the state.
\<close>

definition visitValue ::
    "string list option \<Rightarrow> string list \<Rightarrow> nat \<times> expr \<Rightarrow> ValidationSchema list \<Rightarrow> ValidationSchema list" where
  "visitValue doc names iv schemas =
     (case extractValidationSchema (snd iv) of
        None \<Rightarrow> schemas
      | Some schema \<Rightarrow> schemas @ [resolveTypeName doc names (fst iv) schema])"

fun visitSpec :: "string list option \<Rightarrow> spec \<Rightarrow> ValidationSchema list \<Rightarrow> ValidationSchema list" where
  "visitSpec doc (ValueSpec names ty vals) schemas =
     fold (visitValue doc names) (enumerate 0 vals) schemas"
| "visitSpec doc other schemas = schemas"

fun visitDecl :: "decl \<Rightarrow> ValidationSchema list \<Rightarrow> ValidationSchema list" where
  "visitDecl (GenDecl tok doc specs) schemas =
     (if tok = tokVAR then fold (visitSpec doc) specs schemas else schemas)"
| "visitDecl other schemas = schemas"

text \<open>
  \<^verbatim>\<open>ast.Inspect\<close> calls the closure on every node of the tree in depth-first order,
  a node before its children and the children in the order of \<^verbatim>\<open>ast.Walk\<close>; the closure
  returns \<^verbatim>\<open>true\<close> on every node, so no subtree is left out. The closure changes
  \<open>schemas\<close> on \<^verbatim>\<open>*ast.GenDecl\<close> nodes only, so the walk is given by the declaration
  nodes in that order.
\<close>

primrec declsExpr :: "expr \<Rightarrow> decl list"
  and declsField :: "field \<Rightarrow> decl list"
  and declsStmt :: "stmt \<Rightarrow> decl list"
  and declsDecl :: "decl \<Rightarrow> decl list"
  and declsSpec :: "spec \<Rightarrow> decl list" where
  "declsExpr (Ident name) = []"
| "declsExpr (BasicLit v) = []"
| "declsExpr (SelectorExpr x sel) = declsExpr x"
| "declsExpr (CallExpr f args) = declsExpr f @ concat (map declsExpr args)"
| "declsExpr (IndexExpr x i) = declsExpr x @ declsExpr i"
| "declsExpr (FuncLit params results body) =
     concat (map declsField params)
     @ (case map_option (map declsField) results of None \<Rightarrow> [] | Some ds \<Rightarrow> concat ds)
     @ concat (map declsStmt body)"
| "declsExpr (CompositeLit ty elts) = declsExpr ty @ concat (map declsExpr elts)"
| "declsExpr (UnaryExpr opr x) = declsExpr x"
| "declsExpr (BinaryExpr x opr y) = declsExpr x @ declsExpr y"
| "declsExpr (ParenExpr x) = declsExpr x"
| "declsField (Field names ty) = declsExpr ty"
| "declsStmt (ReturnStmt results) = concat (map declsExpr results)"
| "declsStmt (DeclStmt d) = declsDecl d"
| "declsStmt (ExprStmt x) = declsExpr x"
| "declsStmt (AssignStmt lhs rhs) = concat (map declsExpr lhs) @ concat (map declsExpr rhs)"
| "declsStmt (BlockStmt body) = concat (map declsStmt body)"
| "declsDecl (GenDecl tok doc specs) = GenDecl tok doc specs # concat (map declsSpec specs)"
| "declsDecl (FuncDecl name params results body) =
     concat (map declsField params)
     @ (case map_option (map declsField) results of None \<Rightarrow> [] | Some ds \<Rightarrow> concat ds)
     @ (case map_option (map declsStmt) body of None \<Rightarrow> [] | Some ds \<Rightarrow> concat ds)"
| "declsSpec (ValueSpec names ty vals) =
     (case map_option declsExpr ty of None \<Rightarrow> [] | Some ds \<Rightarrow> ds)
     @ concat (map declsExpr vals)"
| "declsSpec (TypeSpec name ty) = declsExpr ty"
| "declsSpec (ImportSpec path) = []"

fun findValidationSchemas :: "ast_file \<Rightarrow> ValidationSchema list" where
  "findValidationSchemas (File name decls) = fold visitDecl (concat (map declsDecl decls)) []"

section \<open>Emission\<close>

text \<open>
  What the generator takes from its surroundings: the parser (\<^verbatim>\<open>parser.ParseFile\<close>, an
  error message or a tree), \<^verbatim>\<open>strings.ToLower\<close>, \<^verbatim>\<open>strings.ToUpper\<close> and
  \<^verbatim>\<open>filepath.Join\<close> of the standard library, and the failures of the operating system:
  each of \<^verbatim>\<open>os.MkdirAll\<close>, \<^verbatim>\<open>os.Create\<close> and the writes of \<^verbatim>\<open>tmpl.Execute\<close> may fail,
  depending on the state of the file system and on its arguments. A failed write gives the
  number of bytes that reached the file.
\<close>

datatype fsOp = OpMkdirAll string | OpCreate string | OpWrite string string

record fsState =
  dirs :: "string set"
  files :: "string \<Rightarrow> string option"
  oplog :: "fsOp list"

record env =
  ParseFile :: "string \<Rightarrow> string + ast_file"
  ToLower :: "string \<Rightarrow> string"
  ToUpper :: "string \<Rightarrow> string"
  Join :: "string \<Rightarrow> string \<Rightarrow> string"
  MkdirAllErr :: "fsState \<Rightarrow> string \<Rightarrow> string option"
  CreateErr :: "fsState \<Rightarrow> string \<Rightarrow> string option"
  WriteErr :: "fsState \<Rightarrow> string \<Rightarrow> string \<Rightarrow> (string \<times> nat) option"

datatype genError =
    CreatingOutputDirectory string
  | CreatingOutputFile string
  | ExecutingTemplate string

datatype error =
    ParsingInputFile string
  | NoValidationSchemasFound string
  | GeneratingValidator string genError

text \<open>The template function \<^verbatim>\<open>capitalizeFirst\<close>.\<close>

definition capitalizeFirst :: "env \<Rightarrow> string \<Rightarrow> string" where
  "capitalizeFirst env s = (if length s = 0 then s else ToUpper env (take 1 s) @ drop 1 s)"

text \<open>
  The text that the template of \<^verbatim>\<open>generateValidator\<close> renders. \<^verbatim>\<open>text/template\<close> puts
  the strings into the output as they are. The template text is a constant that parses,
  so the branch for a template that does not parse is never taken.
\<close>

definition renderArgs :: "string list \<Rightarrow> string" where
  "renderArgs args =
     concat (map (\<lambda>(i, arg). (if i \<noteq> 0 then '', '' else []) @ arg) (enumerate (0::nat) args))"

definition renderCall :: "ValidatorCall \<Rightarrow> string" where
  "renderCall c = ''.'' @ Method c @ ''('' @ renderArgs (Args c) @ '')''"

definition renderField :: "env \<Rightarrow> string \<Rightarrow> ValidationField \<Rightarrow> string" where
  "renderField env typeName f =
     ''.'' @ [CHR 0x0A, CHR 0x09] @ ''Field(func(v '' @ typeName @ '') '' @ Type f
     @ '' { return v.'' @ Name f @ '' }, validate.'' @ capitalizeFirst env (Type f) @ ''()''
     @ concat (map renderCall (Validators f)) @ '')''"

definition renderValidator :: "env \<Rightarrow> string \<Rightarrow> ValidationSchema \<Rightarrow> string" where
  "renderValidator env pkg schema =
     ''// Code generated by tibeb. DO NOT EDIT.'' @ [CHR 0x0A]
     @ ''package '' @ pkg @ [CHR 0x0A, CHR 0x0A]
     @ ''import ('' @ [CHR 0x0A, CHR 0x09, CHR 0x22] @ ''github.com/bm-197/tibeb/pkg/validate''
     @ [CHR 0x22, CHR 0x0A] @ '')'' @ [CHR 0x0A, CHR 0x0A]
     @ ''// Validate'' @ TypeName schema @ '' validates the '' @ TypeName schema @ '' struct''
     @ [CHR 0x0A]
     @ ''func Validate'' @ TypeName schema @ ''(v '' @ TypeName schema @ '') *validate.Errors {''
     @ [CHR 0x0A, CHR 0x09]
     @ ''return '' @ TypeName schema @ ''Schema.Validate(v)'' @ [CHR 0x0A] @ ''}''
     @ [CHR 0x0A, CHR 0x0A]
     @ ''// '' @ TypeName schema @ ''Schema is the validation schema for '' @ TypeName schema
     @ [CHR 0x0A]
     @ ''var '' @ TypeName schema @ ''Schema = validate.Struct['' @ TypeName schema @ '']()''
     @ concat (map (renderField env (TypeName schema)) (Fields schema)) @ [CHR 0x0A]"

text \<open>
  \<^verbatim>\<open>generateValidator\<close>: the state of the file system goes in and comes out, also when
  the function fails, since what it did before the failure stays done.
\<close>

definition generateValidator ::
    "env \<Rightarrow> Config \<Rightarrow> ValidationSchema \<Rightarrow> fsState \<Rightarrow> genError option \<times> fsState" where
  "generateValidator env config schema fs =
     (case MkdirAllErr env fs (OutputDir config) of
        Some e \<Rightarrow> (Some (CreatingOutputDirectory e), fs)
      | None \<Rightarrow>
          (let fs1 = fs\<lparr>dirs := insert (OutputDir config) (dirs fs),
                        oplog := oplog fs @ [OpMkdirAll (OutputDir config)]\<rparr>;
               outFile = Join env (OutputDir config)
                           (ToLower env (TypeName schema) @ ''_validator.go'')
           in (case CreateErr env fs1 outFile of
                 Some e \<Rightarrow> (Some (CreatingOutputFile e), fs1)
               | None \<Rightarrow>
                   (let fs2 = fs1\<lparr>files := (files fs1)(outFile \<mapsto> []),
                                   oplog := oplog fs1 @ [OpCreate outFile]\<rparr>;
                        out = renderValidator env (Package config) schema
                    in (case WriteErr env fs2 outFile out of
                          Some (e, n) \<Rightarrow>
                            (Some (ExecutingTemplate e),
                             fs2\<lparr>files := (files fs2)(outFile \<mapsto> take n out),
                                 oplog := oplog fs2 @ [OpWrite outFile (take n out)]\<rparr>)
                        | None \<Rightarrow>
                            (None,
                             fs2\<lparr>files := (files fs2)(outFile \<mapsto> out),
                                 oplog := oplog fs2 @ [OpWrite outFile out]\<rparr>))))))"

text \<open>The loop of \<^verbatim>\<open>Generate\<close> over the schemas.\<close>

fun generateAll ::
    "env \<Rightarrow> Config \<Rightarrow> ValidationSchema list \<Rightarrow> fsState \<Rightarrow> error option \<times> fsState" where
  "generateAll env config [] fs = (None, fs)"
| "generateAll env config (schema # rest) fs =
     (case generateValidator env config schema fs of
        (Some err, fs') \<Rightarrow> (Some (GeneratingValidator (TypeName schema) err), fs')
      | (None, fs') \<Rightarrow> generateAll env config rest fs')"

text \<open>
  \<^verbatim>\<open>Generate\<close>. What \<^verbatim>\<open>Verbose\<close> prints goes to the standard output and is not part of
  the state.
\<close>

definition Generate :: "env \<Rightarrow> Config \<Rightarrow> fsState \<Rightarrow> error option \<times> fsState" where
  "Generate env config fs =
     (case ParseFile env (InputFile config) of
        Inl e \<Rightarrow> (Some (ParsingInputFile e), fs)
      | Inr f \<Rightarrow>
          (let schemas = findValidationSchemas f
           in if length schemas = 0
              then (Some (NoValidationSchemasFound (InputFile config)), fs)
              else generateAll env config schemas fs))"

section \<open>Notions used in the statements\<close>

text \<open>
  A chain in source order: \<open>chain base [(m1, as1), (m2, as2)]\<close> is the tree of
  \<^verbatim>\<open>base.m1(as1).m2(as2)\<close>.
\<close>

definition methodCall :: "expr \<Rightarrow> string \<times> expr list \<Rightarrow> expr" where
  "methodCall recv c = CallExpr (SelectorExpr recv (fst c)) (snd c)"

definition chain :: "expr \<Rightarrow> (string \<times> expr list) list \<Rightarrow> expr" where
  "chain base calls = foldl methodCall base calls"

text \<open>The root builder call \<^verbatim>\<open>validate.Struct[T](args)\<close>.\<close>

definition builderRoot :: "string \<Rightarrow> expr list \<Rightarrow> expr" where
  "builderRoot t args =
     CallExpr (IndexExpr (SelectorExpr (Ident ''validate'') ''Struct'') (Ident t)) args"

fun isSelectorCall :: "expr \<Rightarrow> bool" where
  "isSelectorCall (CallExpr (SelectorExpr x sel) args) = True"
| "isSelectorCall other = False"

fun isLiteralOrIdent :: "expr \<Rightarrow> bool" where
  "isLiteralOrIdent (BasicLit v) = True"
| "isLiteralOrIdent (Ident name) = True"
| "isLiteralOrIdent other = False"

fun tokenOf :: "expr \<Rightarrow> string" where
  "tokenOf (BasicLit v) = v"
| "tokenOf (Ident name) = name"
| "tokenOf other = []"

text \<open>What the extractor records for one call of a validator chain.\<close>

definition recorded :: "string \<times> expr list \<Rightarrow> ValidatorCall" where
  "recorded c = \<lparr>Method = fst c, Args = extractArgs (snd c)\<rparr>"

text \<open>The calls of a validator chain without a leading type constructor.\<close>

fun withoutConstructor :: "expr \<Rightarrow> (string \<times> expr list) list \<Rightarrow> (string \<times> expr list) list" where
  "withoutConstructor base [] = []"
| "withoutConstructor base (c # rest) =
     (if isTypeConstructor base (fst c) (snd c) then rest else c # rest)"

text \<open>What the extractor makes of one call of a builder chain.\<close>

definition fieldOfCall :: "string \<times> expr list \<Rightarrow> ValidationField option" where
  "fieldOfCall c = (if fst c = ''Field'' then extractFieldValidation (snd c) else None)"

text \<open>
  A well-formed field declaration as \<^verbatim>\<open>extractFieldValidation\<close> accepts it: the
  arguments \<^verbatim>\<open>func(params) results { return recv.name, more...; stmts... }\<close> and a
  validator expression.
\<close>

record fieldCall =
  selParams :: "field list"
  selResults :: "field list option"
  selRecv :: expr
  selName :: string
  moreResults :: "expr list"
  moreStmts :: "stmt list"
  validatorExpr :: expr

definition fieldArgs :: "fieldCall \<Rightarrow> expr list" where
  "fieldArgs d =
     [FuncLit (selParams d) (selResults d)
        (ReturnStmt (SelectorExpr (selRecv d) (selName d) # moreResults d) # moreStmts d),
      validatorExpr d]"

definition fieldOf :: "fieldCall \<Rightarrow> ValidationField" where
  "fieldOf d =
     \<lparr>Name = selName d, Type = inferFieldType (selResults d),
      Validators = extractValidators (validatorExpr d)\<rparr>"

text \<open>
  The selector shape in the words of the specification (section 4.3): a function
  literal with a single statement, a return statement that projects the literal's own
  parameter into one of its fields.
\<close>

fun specSingleReturnProjection :: "expr \<Rightarrow> bool" where
  "specSingleReturnProjection
     (FuncLit [Field [param] ty] results [ReturnStmt [SelectorExpr (Ident x) name]]) =
     (x = param)"
| "specSingleReturnProjection other = False"

text \<open>The two loops of \<^verbatim>\<open>extractValidationSchema\<close> on an expression that is a call.\<close>

fun collectExpr :: "expr \<Rightarrow> ValidationField list \<Rightarrow> ValidationField list" where
  "collectExpr (CallExpr fn args) acc = collectFields fn args acc"
| "collectExpr other acc = acc"

fun rootExpr :: "expr \<Rightarrow> expr" where
  "rootExpr (CallExpr fn args) = fst (findRootCall fn args)"
| "rootExpr other = other"


text \<open>
  The schemas of one specification and of one declaration node, as lists: the values that
  match, in the order of the values, each with its resolved type name.
\<close>

definition specSchemas :: "string list option \<Rightarrow> spec \<Rightarrow> ValidationSchema list" where
  "specSchemas doc sp =
     (case sp of
        ValueSpec names ty vals \<Rightarrow>
          List.map_filter
            (\<lambda>iv. map_option (resolveTypeName doc names (fst iv)) (extractValidationSchema (snd iv)))
            (enumerate 0 vals)
      | _ \<Rightarrow> [])"

definition declSchemas :: "decl \<Rightarrow> ValidationSchema list" where
  "declSchemas d =
     (case d of
        GenDecl tok doc specs \<Rightarrow> if tok = tokVAR then concat (map (specSchemas doc) specs) else []
      | _ \<Rightarrow> [])"

text \<open>The path of the output file of a schema.\<close>

definition outPath :: "env \<Rightarrow> Config \<Rightarrow> ValidationSchema \<Rightarrow> string" where
  "outPath env config schema =
     Join env (OutputDir config) (ToLower env (TypeName schema) @ ''_validator.go'')"

text \<open>
  A sample of the surroundings, for evaluation: a parser that gives \<open>parsed\<close>,
  \<^verbatim>\<open>ToLower\<close> and \<^verbatim>\<open>ToUpper\<close> on ASCII letters, \<^verbatim>\<open>Join\<close> of a clean relative
  directory and a file name with the separator of Unix, and an operating system that
  refuses to create the files of \<open>denied\<close> and fails nowhere else.
\<close>

definition lowerByte :: "char \<Rightarrow> char" where
  "lowerByte c =
     (if 65 \<le> (of_char c :: nat) \<and> (of_char c :: nat) \<le> 90
      then Char (digit0 c) (digit1 c) (digit2 c) (digit3 c) (digit4 c) True (digit6 c) (digit7 c)
      else c)"

definition upperByte :: "char \<Rightarrow> char" where
  "upperByte c =
     (if 97 \<le> (of_char c :: nat) \<and> (of_char c :: nat) \<le> 122
      then Char (digit0 c) (digit1 c) (digit2 c) (digit3 c) (digit4 c) False (digit6 c) (digit7 c)
      else c)"

definition sampleEnv :: "ast_file \<Rightarrow> string list \<Rightarrow> env" where
  "sampleEnv parsed denied =
     \<lparr>ParseFile = (\<lambda>path. Inr parsed),
      ToLower = map lowerByte,
      ToUpper = map upperByte,
      Join = (\<lambda>dir name. if dir = [] then name else dir @ ''/'' @ name),
      MkdirAllErr = (\<lambda>fs path. None),
      CreateErr = (\<lambda>fs path. if path \<in> set denied then Some ''permission denied'' else None),
      WriteErr = (\<lambda>fs path out. None)\<rparr>"

definition emptyFs :: fsState where
  "emptyFs = \<lparr>dirs = {}, files = (\<lambda>path. None), oplog = []\<rparr>"

section \<open>Validator chains\<close>

lemma fold_appendArg: "fold appendArg as acc = acc @ map tokenOf (filter isLiteralOrIdent as)"
proof (induction as arbitrary: acc)
  case Nil
  show ?case by simp
next
  case (Cons a as)
  show ?case by (cases a) (simp_all add: Cons.IH)
qed

lemma extractArgs_filter: "extractArgs as = map tokenOf (filter isLiteralOrIdent as)"
  by (simp add: extractArgs_def fold_appendArg)

lemma chain_snoc: "chain base (cs @ [c]) = CallExpr (SelectorExpr (chain base cs) (fst c)) (snd c)"
  by (simp add: chain_def methodCall_def)

lemma chain_is_call: "cs \<noteq> [] \<Longrightarrow> \<not> isValidateIdent (chain base cs)"
  by (cases cs rule: rev_cases) (simp_all add: chain_snoc)

lemma loop_stop: "\<not> isSelectorCall e \<Longrightarrow> extractValidatorsLoop e acc = acc"
  by (induction e acc rule: extractValidatorsLoop.induct) simp_all

lemma loop_acc: "extractValidatorsLoop e (acc @ acc') = extractValidatorsLoop e acc @ acc'"
proof (induction e acc arbitrary: acc' rule: extractValidatorsLoop.induct)
  case (1 x methodName args validators)
  show ?case
  proof (cases "isTypeConstructor x methodName args")
    case True
    with 1 show ?thesis by simp
  next
    case False
    with 1(2) [of "acc'"] show ?thesis by simp
  qed
qed simp_all

lemma withoutConstructor_snoc:
  "cs \<noteq> [] \<Longrightarrow> withoutConstructor base (cs @ [c]) = withoutConstructor base cs @ [c]"
  by (cases cs) simp_all

lemma loop_chain:
  "\<not> isSelectorCall base \<Longrightarrow>
   extractValidatorsLoop (chain base cs) acc = map recorded (withoutConstructor base cs) @ acc"
proof (induction cs arbitrary: acc rule: rev_induct)
  case Nil
  then show ?case by (simp add: chain_def loop_stop)
next
  case (snoc c cs)
  show ?case
  proof (cases "cs = []")
    case True
    with snoc.prems show ?thesis
      by (simp add: chain_def methodCall_def loop_stop recorded_def)
  next
    case False
    then have "\<not> isTypeConstructor (chain base cs) (fst c) (snd c)"
      by (simp add: isTypeConstructor_def chain_is_call)
    with False snoc show ?thesis
      by (simp add: chain_snoc withoutConstructor_snoc recorded_def)
  qed
qed

text \<open>
  C5. The validators of a field are the calls of the validator chain in source order,
  left to right: for a chain \<^verbatim>\<open>base.m1(as1). ... .mn(asn)\<close> whose \<open>base\<close> is not a call on a
  selector, the walk records \<open>m1\<close> to \<open>mn\<close> in this order, stops at \<open>base\<close> and records
  nothing of it; a leading \<^verbatim>\<open>validate.String()\<close> or \<^verbatim>\<open>validate.Int()\<close> is left out.
\<close>

theorem validators_in_source_order:
  assumes "\<not> isSelectorCall base"
  shows "extractValidators (chain base calls) = map recorded (withoutConstructor base calls)"
  using assms by (simp add: extractValidators_def loop_chain)

theorem validators_in_source_order_witness:
  "\<not> isSelectorCall (Ident ''validate'') \<and>
   extractValidators (chain (Ident ''validate'')
      [(''String'', []), (''MinLen'', [BasicLit ''3'']), (''MaxLen'', [BasicLit ''30''])])
   = [\<lparr>Method = ''MinLen'', Args = [''3'']\<rparr>, \<lparr>Method = ''MaxLen'', Args = [''30'']\<rparr>]"
  using validators_in_source_order [of "Ident ''validate''"
      "[(''String'', []), (''MinLen'', [BasicLit ''3'']), (''MaxLen'', [BasicLit ''30''])]"]
  by (simp add: recorded_def isTypeConstructor_def extractArgs_def)

text \<open>
  C10. For a call \<^verbatim>\<open>x.m(args)\<close> that the walk records, \<^verbatim>\<open>Args\<close> holds the tokens of the
  arguments that are basic literals or identifiers, in the order of the arguments, and
  nothing for an argument of any other shape; there is no error. (A skipped type
  constructor has no arguments.) The emitted call has these tokens and no others.
\<close>

theorem recorded_args_are_literals_and_identifiers:
  "extractValidators (CallExpr (SelectorExpr x m) args) =
     (if isTypeConstructor x m args then []
      else extractValidators x
           @ [\<lparr>Method = m, Args = map tokenOf (filter isLiteralOrIdent args)\<rparr>])
   \<and> renderCall (recorded (m, args)) =
     ''.'' @ m @ ''('' @ renderArgs (map tokenOf (filter isLiteralOrIdent args)) @ '')''"
proof
  show "extractValidators (CallExpr (SelectorExpr x m) args) =
     (if isTypeConstructor x m args then []
      else extractValidators x
           @ [\<lparr>Method = m, Args = map tokenOf (filter isLiteralOrIdent args)\<rparr>])"
  proof (cases "isTypeConstructor x m args")
    case True
    then have "\<not> isSelectorCall x"
      by (cases x) (simp_all add: isTypeConstructor_def)
    with True show ?thesis
      by (simp add: extractValidators_def loop_stop)
  next
    case False
    have "extractValidatorsLoop x ([] @ [\<lparr>Method = m, Args = extractArgs args\<rparr>])
          = extractValidatorsLoop x [] @ [\<lparr>Method = m, Args = extractArgs args\<rparr>]"
      by (rule loop_acc)
    with False show ?thesis
      by (simp add: extractValidators_def extractArgs_filter)
  qed
  show "renderCall (recorded (m, args)) =
     ''.'' @ m @ ''('' @ renderArgs (map tokenOf (filter isLiteralOrIdent args)) @ '')''"
    by (simp add: renderCall_def recorded_def extractArgs_filter)
qed

theorem recorded_args_are_literals_and_identifiers_witness:
  "extractValidators
     (CallExpr (SelectorExpr (Ident ''rules'') ''Between'')
        [BasicLit ''1'', CallExpr (Ident ''max'') [], Ident ''limit'',
         SelectorExpr (Ident ''cfg'') ''Top'', CompositeLit (Ident ''T'') [],
         FuncLit [] None [], UnaryExpr ''-'' (BasicLit ''5''),
         BasicLit [CHR 0x22, CHR ''a'', CHR 0x22]])
   = [\<lparr>Method = ''Between'', Args = [''1'', ''limit'', [CHR 0x22, CHR ''a'', CHR 0x22]]\<rparr>]
   \<and> renderCall (recorded (''Between'',
        [BasicLit ''1'', CallExpr (Ident ''max'') [], Ident ''limit'',
         SelectorExpr (Ident ''cfg'') ''Top'', CompositeLit (Ident ''T'') [],
         FuncLit [] None [], UnaryExpr ''-'' (BasicLit ''5''),
         BasicLit [CHR 0x22, CHR ''a'', CHR 0x22]]))
   = ''.Between(1, limit, '' @ [CHR 0x22, CHR ''a'', CHR 0x22] @ '')''"
  using recorded_args_are_literals_and_identifiers [of "Ident ''rules''" "''Between''"
      "[BasicLit ''1'', CallExpr (Ident ''max'') [], Ident ''limit'',
        SelectorExpr (Ident ''cfg'') ''Top'', CompositeLit (Ident ''T'') [],
        FuncLit [] None [], UnaryExpr ''-'' (BasicLit ''5''),
        BasicLit [CHR 0x22, CHR ''a'', CHR 0x22]]"]
  by (simp add: isTypeConstructor_def extractValidators_def renderArgs_def)

section \<open>Builder chains\<close>

lemma chain_nil: "chain base [] = base"
  by (simp add: chain_def)

lemma chain_call: "\<exists>fn args. chain (builderRoot t rargs) cs = CallExpr fn args"
  by (cases cs rule: rev_cases) (simp_all add: chain_snoc chain_nil builderRoot_def)

lemma collect_snoc:
  "collectExpr (chain (builderRoot t rargs) (cs @ [c])) acc =
   collectExpr (chain (builderRoot t rargs) cs)
     (case fieldOfCall c of Some f \<Rightarrow> f # acc | None \<Rightarrow> acc)"
proof -
  obtain fn args where "chain (builderRoot t rargs) cs = CallExpr fn args"
    using chain_call by blast
  then show ?thesis
    by (simp add: chain_snoc fieldOfCall_def split: option.splits)
qed

lemma collect_chain:
  "collectExpr (chain (builderRoot t rargs) cs) acc = List.map_filter fieldOfCall cs @ acc"
proof (induction cs arbitrary: acc rule: rev_induct)
  case Nil
  show ?case by (simp add: chain_nil builderRoot_def List.map_filter_simps)
next
  case (snoc c cs)
  show ?case
    by (simp add: collect_snoc snoc.IH List.map_filter_def split: option.splits)
qed

lemma root_snoc:
  "rootExpr (chain (builderRoot t rargs) (cs @ [c])) = rootExpr (chain (builderRoot t rargs) cs)"
proof -
  obtain fn args where "chain (builderRoot t rargs) cs = CallExpr fn args"
    using chain_call by blast
  then show ?thesis
    by (simp add: chain_snoc)
qed

lemma root_chain:
  "rootExpr (chain (builderRoot t rargs) cs) =
     IndexExpr (SelectorExpr (Ident ''validate'') ''Struct'') (Ident t)"
proof (induction cs rule: rev_induct)
  case Nil
  show ?case by (simp add: chain_nil builderRoot_def)
next
  case (snoc c cs)
  then show ?case by (simp only: root_snoc)
qed

lemma extract_chain:
  "extractValidationSchema (chain (builderRoot t rargs) cs) =
     Some \<lparr>TypeName = t, Fields = List.map_filter fieldOfCall cs\<rparr>"
proof -
  obtain fn args where c: "chain (builderRoot t rargs) cs = CallExpr fn args"
    using chain_call by blast
  have r: "fst (findRootCall fn args) =
             IndexExpr (SelectorExpr (Ident ''validate'') ''Struct'') (Ident t)"
    using root_chain [of t rargs cs] by (simp add: c)
  have f: "collectFields fn args [] = List.map_filter fieldOfCall cs"
    using collect_chain [of t rargs cs "[]"] by (simp add: c)
  show ?thesis by (simp add: c r f)
qed

lemma extract_fieldArgs: "extractFieldValidation (fieldArgs d) = Some (fieldOf d)"
  by (simp add: fieldArgs_def fieldOf_def)

lemma extract_Some_shape:
  "extractFieldValidation args = Some f \<Longrightarrow> \<exists>d. args = fieldArgs d"
proof (induction args rule: extractFieldValidation.induct)
  case (1 params results x sel rs body v)
  have "[FuncLit params results (ReturnStmt (SelectorExpr x sel # rs) # body), v] =
        fieldArgs \<lparr>selParams = params, selResults = results, selRecv = x, selName = sel,
                   moreResults = rs, moreStmts = body, validatorExpr = v\<rparr>"
    by (simp add: fieldArgs_def)
  then show ?case by blast
qed simp_all

text \<open>
  C2. Field order. For the chain \<^verbatim>\<open>validate.Struct[T]().Field(d1).Field(d2). ... .Field(dn)\<close>
  of well-formed field declarations, the extracted \<^verbatim>\<open>Fields\<close> are the fields of
  \<open>d1\<close>, \<open>d2\<close>, ..., \<open>dn\<close> in this order, the order of the source, although the
  walk goes from the last call inward.
\<close>

theorem fields_in_source_order:
  "extractValidationSchema
     (chain (builderRoot t rargs) (map (\<lambda>d. (''Field'', fieldArgs d)) ds)) =
   Some \<lparr>TypeName = t, Fields = map fieldOf ds\<rparr>"
proof -
  have "List.map_filter fieldOfCall (map (\<lambda>d. (''Field'', fieldArgs d)) ds) = map fieldOf ds"
    by (induction ds) (simp_all add: List.map_filter_simps fieldOfCall_def extract_fieldArgs)
  then show ?thesis
    by (simp add: extract_chain)
qed

theorem fields_in_source_order_witness:
  "extractValidationSchema
     (chain (builderRoot ''User'' [])
        [(''Field'', [FuncLit [Field [''u''] (Ident ''User'')] (Some [Field [] (Ident ''string'')])
                        [ReturnStmt [SelectorExpr (Ident ''u'') ''Username'']],
                      chain (Ident ''validate'')
                        [(''String'', []), (''MinLen'', [BasicLit ''3'']), (''MaxLen'', [BasicLit ''30''])]]),
         (''Field'', [FuncLit [Field [''u''] (Ident ''User'')] (Some [Field [] (Ident ''string'')])
                        [ReturnStmt [SelectorExpr (Ident ''u'') ''Email'']],
                      chain (Ident ''validate'') [(''String'', []), (''Email'', [])]]),
         (''Field'', [FuncLit [Field [''u''] (Ident ''User'')] (Some [Field [] (Ident ''int'')])
                        [ReturnStmt [SelectorExpr (Ident ''u'') ''Age'']],
                      chain (Ident ''validate'') [(''Int'', []), (''Min'', [BasicLit ''13''])]])]) =
   Some \<lparr>TypeName = ''User'',
         Fields =
           [\<lparr>Name = ''Username'', Type = ''string'',
             Validators = [\<lparr>Method = ''MinLen'', Args = [''3'']\<rparr>,
                           \<lparr>Method = ''MaxLen'', Args = [''30'']\<rparr>]\<rparr>,
            \<lparr>Name = ''Email'', Type = ''string'',
             Validators = [\<lparr>Method = ''Email'', Args = []\<rparr>]\<rparr>,
            \<lparr>Name = ''Age'', Type = ''int'',
             Validators = [\<lparr>Method = ''Min'', Args = [''13'']\<rparr>]\<rparr>]\<rparr>"
  using fields_in_source_order [of "''User''" "[]"
      "[\<lparr>selParams = [Field [''u''] (Ident ''User'')],
         selResults = Some [Field [] (Ident ''string'')],
         selRecv = Ident ''u'', selName = ''Username'', moreResults = [], moreStmts = [],
         validatorExpr = chain (Ident ''validate'')
           [(''String'', []), (''MinLen'', [BasicLit ''3'']), (''MaxLen'', [BasicLit ''30''])]\<rparr>,
        \<lparr>selParams = [Field [''u''] (Ident ''User'')],
         selResults = Some [Field [] (Ident ''string'')],
         selRecv = Ident ''u'', selName = ''Email'', moreResults = [], moreStmts = [],
         validatorExpr = chain (Ident ''validate'') [(''String'', []), (''Email'', [])]\<rparr>,
        \<lparr>selParams = [Field [''u''] (Ident ''User'')],
         selResults = Some [Field [] (Ident ''int'')],
         selRecv = Ident ''u'', selName = ''Age'', moreResults = [], moreStmts = [],
         validatorExpr = chain (Ident ''validate'') [(''Int'', []), (''Min'', [BasicLit ''13''])]\<rparr>]"]
  by (simp add: fieldArgs_def fieldOf_def chain_def methodCall_def extractValidators_def
        isTypeConstructor_def extractArgs_def)

text \<open>
  C4. Leniency. A \<^verbatim>\<open>Field\<close> call is dropped, with no error, when it does not have
  exactly two arguments or when its arguments are not those of a well-formed field
  declaration (a function literal whose first statement is a return statement whose first
  result is a selector expression, then a validator expression); the schema has the fields
  of all the other \<^verbatim>\<open>Field\<close> calls of the chain, in source order.
\<close>

theorem malformed_fields_dropped:
  "extractValidationSchema (chain (builderRoot t rargs) calls) =
     Some \<lparr>TypeName = t, Fields = List.map_filter fieldOfCall calls\<rparr>
   \<and> (length args \<noteq> 2 \<longrightarrow> extractFieldValidation args = None)
   \<and> (extractFieldValidation args = None \<longleftrightarrow> (\<forall>d. args \<noteq> fieldArgs d))"
proof (intro conjI)
  show "extractValidationSchema (chain (builderRoot t rargs) calls) =
     Some \<lparr>TypeName = t, Fields = List.map_filter fieldOfCall calls\<rparr>"
    by (rule extract_chain)
  show "extractFieldValidation args = None \<longleftrightarrow> (\<forall>d. args \<noteq> fieldArgs d)"
  proof
    assume "extractFieldValidation args = None"
    then show "\<forall>d. args \<noteq> fieldArgs d"
      by (auto simp: extract_fieldArgs)
  next
    assume "\<forall>d. args \<noteq> fieldArgs d"
    then show "extractFieldValidation args = None"
      by (cases "extractFieldValidation args") (auto dest: extract_Some_shape)
  qed
  then show "length args \<noteq> 2 \<longrightarrow> extractFieldValidation args = None"
    by (auto simp: fieldArgs_def)
qed

theorem malformed_fields_dropped_witness:
  "length [FuncLit [Field [''u''] (Ident ''User'')] (Some [Field [] (Ident ''string'')])
             [ReturnStmt [SelectorExpr (Ident ''u'') ''Email'']],
           chain (Ident ''validate'') [(''String'', [])], BasicLit ''1''] \<noteq> 2
   \<and> extractValidationSchema
     (chain (builderRoot ''User'' [])
        [(''Field'', [FuncLit [Field [''u''] (Ident ''User'')] (Some [Field [] (Ident ''string'')])
                        [ReturnStmt [SelectorExpr (Ident ''u'') ''Username'']],
                      chain (Ident ''validate'') [(''String'', [])]]),
         (''Field'', [FuncLit [Field [''u''] (Ident ''User'')] (Some [Field [] (Ident ''string'')])
                        [ReturnStmt [SelectorExpr (Ident ''u'') ''Email'']],
                      chain (Ident ''validate'') [(''String'', [])], BasicLit ''1'']),
         (''Field'', [Ident ''byAge'', chain (Ident ''validate'') [(''Int'', [])]]),
         (''Field'', [FuncLit [Field [''u''] (Ident ''User'')] (Some [Field [] (Ident ''int'')])
                        [ReturnStmt [SelectorExpr (Ident ''u'') ''Age'']],
                      chain (Ident ''validate'') [(''Int'', []), (''Min'', [BasicLit ''13''])]])]) =
   Some \<lparr>TypeName = ''User'',
         Fields =
           [\<lparr>Name = ''Username'', Type = ''string'', Validators = []\<rparr>,
            \<lparr>Name = ''Age'', Type = ''int'',
             Validators = [\<lparr>Method = ''Min'', Args = [''13'']\<rparr>]\<rparr>]\<rparr>"
  using malformed_fields_dropped [of "''User''" "[]"
        "[(''Field'', [FuncLit [Field [''u''] (Ident ''User'')] (Some [Field [] (Ident ''string'')])
                        [ReturnStmt [SelectorExpr (Ident ''u'') ''Username'']],
                      chain (Ident ''validate'') [(''String'', [])]]),
         (''Field'', [FuncLit [Field [''u''] (Ident ''User'')] (Some [Field [] (Ident ''string'')])
                        [ReturnStmt [SelectorExpr (Ident ''u'') ''Email'']],
                      chain (Ident ''validate'') [(''String'', [])], BasicLit ''1'']),
         (''Field'', [Ident ''byAge'', chain (Ident ''validate'') [(''Int'', [])]]),
         (''Field'', [FuncLit [Field [''u''] (Ident ''User'')] (Some [Field [] (Ident ''int'')])
                        [ReturnStmt [SelectorExpr (Ident ''u'') ''Age'']],
                      chain (Ident ''validate'') [(''Int'', []), (''Min'', [BasicLit ''13''])]])]"
        "[FuncLit [Field [''u''] (Ident ''User'')] (Some [Field [] (Ident ''string'')])
             [ReturnStmt [SelectorExpr (Ident ''u'') ''Email'']],
           chain (Ident ''validate'') [(''String'', [])], BasicLit ''1'']"]
  by (simp add: List.map_filter_simps fieldOfCall_def chain_def methodCall_def
        extractValidators_def isTypeConstructor_def extractArgs_def)

text \<open>
  The test of \<^verbatim>\<open>extractFieldValidation\<close> reads the first statement and its first result
  only. The literal
  \<^verbatim>\<open>func(u User) (string, string) { return defaults.Name, u.Email; return u.Email, u.Name }\<close>
  has two return statements of two results each, the first of them not from its parameter:
  it is not the single-return projection of the specification, and its field is extracted
  all the same, with the name \<^verbatim>\<open>Name\<close>.
\<close>

theorem lenient_selector_is_kept:
  "\<not> specSingleReturnProjection
       (FuncLit [Field [''u''] (Ident ''User'')]
          (Some [Field [] (Ident ''string''), Field [] (Ident ''string'')])
          [ReturnStmt [SelectorExpr (Ident ''defaults'') ''Name'',
                       SelectorExpr (Ident ''u'') ''Email''],
           ReturnStmt [SelectorExpr (Ident ''u'') ''Email'',
                       SelectorExpr (Ident ''u'') ''Name'']])
   \<and> extractValidationSchema
       (CallExpr
          (SelectorExpr
             (CallExpr (IndexExpr (SelectorExpr (Ident ''validate'') ''Struct'') (Ident ''User'')) [])
             ''Field'')
          [FuncLit [Field [''u''] (Ident ''User'')]
             (Some [Field [] (Ident ''string''), Field [] (Ident ''string'')])
             [ReturnStmt [SelectorExpr (Ident ''defaults'') ''Name'',
                          SelectorExpr (Ident ''u'') ''Email''],
              ReturnStmt [SelectorExpr (Ident ''u'') ''Email'',
                          SelectorExpr (Ident ''u'') ''Name'']],
           CallExpr (SelectorExpr (Ident ''validate'') ''String'') []]) =
     Some \<lparr>TypeName = ''User'',
           Fields = [\<lparr>Name = ''Name'', Type = ''string'', Validators = []\<rparr>]\<rparr>"
  by (simp add: extractValidators_def isTypeConstructor_def)

section \<open>Type names\<close>




lemma rootTypeName_Some:
  "rootTypeName fn = Some t \<Longrightarrow>
   fn = IndexExpr (SelectorExpr (Ident ''validate'') ''Struct'') (Ident t)"
  by (erule rootTypeName.elims) (auto split: if_splits)

lemma builder_is_chain:
  "\<exists>rargs calls.
     CallExpr (IndexExpr (SelectorExpr (Ident ''validate'') ''Struct'') (Ident t)) args =
     chain (builderRoot t rargs) calls"
  by (metis chain_nil builderRoot_def)

lemma recognized_call:
  "rootTypeName (fst (findRootCall fn args)) = Some t \<Longrightarrow>
   \<exists>rargs calls. CallExpr fn args = chain (builderRoot t rargs) calls"
proof (induction fn args rule: findRootCall.induct)
  case (1 f as sel args)
  then obtain rargs calls where "CallExpr f as = chain (builderRoot t rargs) calls"
    by auto
  then have "CallExpr (SelectorExpr (CallExpr f as) sel) args =
             chain (builderRoot t rargs) (calls @ [(sel, args)])"
    by (simp add: chain_snoc)
  then show ?case by blast
qed (auto dest!: rootTypeName_Some intro: builder_is_chain)

lemma recognized_is_chain:
  "extractValidationSchema e = Some s \<Longrightarrow>
   \<exists>rargs calls. e = chain (builderRoot (TypeName s) rargs) calls"
  by (cases e) (auto split: option.splits dest: recognized_call)











section \<open>The scan of a file\<close>

lemma fold_visitValue:
  "fold (visitValue doc names) ivs acc =
   acc @ List.map_filter
     (\<lambda>iv. map_option (resolveTypeName doc names (fst iv)) (extractValidationSchema (snd iv))) ivs"
  by (induction ivs arbitrary: acc)
     (simp_all add: List.map_filter_simps visitValue_def split: option.splits)

lemma visitSpec_eq: "visitSpec doc sp acc = acc @ specSchemas doc sp"
  by (cases sp) (simp_all add: specSchemas_def fold_visitValue)

lemma fold_visitSpec: "fold (visitSpec doc) specs acc = acc @ concat (map (specSchemas doc) specs)"
  by (induction specs arbitrary: acc) (simp_all add: visitSpec_eq)

lemma visitDecl_eq: "visitDecl d acc = acc @ declSchemas d"
  by (cases d) (simp_all add: declSchemas_def fold_visitSpec)

lemma fold_visitDecl: "fold visitDecl ds acc = acc @ concat (map declSchemas ds)"
  by (induction ds arbitrary: acc) (simp_all add: visitDecl_eq)

text \<open>
  C9. Scope and order of the scan. The schemas of a file are those of all its declaration
  nodes, in the order in which the depth-first walk reaches them, top-level or nested (in
  a function body, for one); a variable declaration gives the schemas of its initializers
  that match, in the order of its specifications and of their values, and any other
  declaration gives none. So the schemas of the top-level declarations come in the order
  of the declarations.
\<close>

theorem schemas_of_all_declarations:
  "findValidationSchemas (File name decls) =
     concat (map declSchemas (concat (map declsDecl decls)))
   \<and> findValidationSchemas (File name (decls @ decls')) =
     findValidationSchemas (File name decls) @ findValidationSchemas (File name decls')"
  by (simp add: fold_visitDecl)

theorem schemas_of_all_declarations_witness:
  "findValidationSchemas
     (File ''models''
        [GenDecl tokVAR None [ValueSpec [''first''] None [builderRoot ''Alpha'' []]],
         FuncDecl ''setup'' [] None
           (Some [DeclStmt
              (GenDecl tokVAR None [ValueSpec [''inner''] None [builderRoot ''Beta'' []]])]),
         GenDecl tokCONST None [ValueSpec [''fixed''] None [builderRoot ''Gamma'' []]],
         GenDecl tokVAR None
           [ValueSpec [''x'', ''y''] None [BasicLit ''1'', builderRoot ''Delta'' []],
            ValueSpec [''last''] None [builderRoot ''Epsilon'' []]]]) =
   [\<lparr>TypeName = ''Alpha'', Fields = []\<rparr>, \<lparr>TypeName = ''Beta'', Fields = []\<rparr>,
    \<lparr>TypeName = ''Delta'', Fields = []\<rparr>, \<lparr>TypeName = ''Epsilon'', Fields = []\<rparr>]"
  using schemas_of_all_declarations [of "''models''"
        "[GenDecl tokVAR None [ValueSpec [''first''] None [builderRoot ''Alpha'' []]],
         FuncDecl ''setup'' [] None
           (Some [DeclStmt
              (GenDecl tokVAR None [ValueSpec [''inner''] None [builderRoot ''Beta'' []]])]),
         GenDecl tokCONST None [ValueSpec [''fixed''] None [builderRoot ''Gamma'' []]],
         GenDecl tokVAR None
           [ValueSpec [''x'', ''y''] None [BasicLit ''1'', builderRoot ''Delta'' []],
            ValueSpec [''last''] None [builderRoot ''Epsilon'' []]]]" "[]"]
  by (simp add: declSchemas_def specSchemas_def List.map_filter_simps builderRoot_def
        resolveTypeName_def del: findValidationSchemas.simps)

text \<open>
  A variable declaration inside a function body is scanned like any other: \<^verbatim>\<open>ast.Inspect\<close>
  walks the whole tree.
\<close>

theorem nested_declaration_is_scanned:
  "findValidationSchemas
     (File ''models''
        [FuncDecl ''setup'' [] None
           (Some [DeclStmt
              (GenDecl tokVAR None
                 [ValueSpec [''inner''] None
                    [CallExpr
                       (IndexExpr (SelectorExpr (Ident ''validate'') ''Struct'') (Ident ''User''))
                       []]])])]) =
   [\<lparr>TypeName = ''User'', Fields = []\<rparr>]"
  by (simp add: visitValue_def resolveTypeName_def)

section \<open>Generation\<close>

text \<open>
  C6. A file that parses and has no declaration that matches: \<^verbatim>\<open>Generate\<close> returns the
  error that no validation schema was found, and the file system is as it was: no
  directory made, no file created or written.
\<close>

theorem no_schema_is_an_error:
  assumes "ParseFile env (InputFile config) = Inr f"
      and "findValidationSchemas f = []"
  shows "Generate env config fs = (Some (NoValidationSchemasFound (InputFile config)), fs)"
  using assms by (simp add: Generate_def)

theorem no_schema_is_an_error_witness:
  "ParseFile
     (sampleEnv
        (File ''models''
           [GenDecl tokIMPORT None [ImportSpec ''fmt''],
            GenDecl tokVAR None [ValueSpec [''limit''] None [BasicLit ''10'']],
            GenDecl tokVAR None
              [ValueSpec [''OrderSchema''] None
                 [CallExpr (SelectorExpr (Ident ''validate'') ''Struct'') []]]]) [])
     (InputFile \<lparr>InputFile = ''models/order.go'', OutputDir = ''gen'', Package = ''gen'',
                 Verbose = False\<rparr>) =
   Inr (File ''models''
           [GenDecl tokIMPORT None [ImportSpec ''fmt''],
            GenDecl tokVAR None [ValueSpec [''limit''] None [BasicLit ''10'']],
            GenDecl tokVAR None
              [ValueSpec [''OrderSchema''] None
                 [CallExpr (SelectorExpr (Ident ''validate'') ''Struct'') []]]])
   \<and> Generate
     (sampleEnv
        (File ''models''
           [GenDecl tokIMPORT None [ImportSpec ''fmt''],
            GenDecl tokVAR None [ValueSpec [''limit''] None [BasicLit ''10'']],
            GenDecl tokVAR None
              [ValueSpec [''OrderSchema''] None
                 [CallExpr (SelectorExpr (Ident ''validate'') ''Struct'') []]]]) [])
     \<lparr>InputFile = ''models/order.go'', OutputDir = ''gen'', Package = ''gen'', Verbose = False\<rparr>
     emptyFs =
   (Some (NoValidationSchemasFound ''models/order.go''), emptyFs)"
proof -
  let ?f = "File ''models''
           [GenDecl tokIMPORT None [ImportSpec ''fmt''],
            GenDecl tokVAR None [ValueSpec [''limit''] None [BasicLit ''10'']],
            GenDecl tokVAR None
              [ValueSpec [''OrderSchema''] None
                 [CallExpr (SelectorExpr (Ident ''validate'') ''Struct'') []]]]"
  let ?c = "\<lparr>InputFile = ''models/order.go'', OutputDir = ''gen'', Package = ''gen'',
             Verbose = False\<rparr>"
  have p: "ParseFile (sampleEnv ?f []) (InputFile ?c) = Inr ?f"
    by (simp add: sampleEnv_def)
  have n: "findValidationSchemas ?f = []"
    by (simp add: visitValue_def)
  show ?thesis
    using no_schema_is_an_error [OF p n, of emptyFs] p by simp
qed

lemma generateValidator_success:
  assumes "generateValidator env config schema fs = (None, fs')"
  shows "files fs' =
           (files fs)(outPath env config schema \<mapsto> renderValidator env (Package config) schema)
         \<and> oplog fs' = oplog fs @
             [OpMkdirAll (OutputDir config), OpCreate (outPath env config schema),
              OpWrite (outPath env config schema) (renderValidator env (Package config) schema)]"
  using assms
  by (auto simp: generateValidator_def outPath_def Let_def split: option.splits prod.splits)

text \<open>
  C8. A schema that is emitted without an error writes one file: the file system changes
  at the path \<^verbatim>\<open>Join(OutputDir, ToLower(TypeName) + "_validator.go")\<close> only, which holds the
  rendered text afterwards, whatever was there before; the operations are one
  \<^verbatim>\<open>MkdirAll\<close>, one \<^verbatim>\<open>Create\<close> and the write.
\<close>

theorem one_file_per_schema:
  assumes "generateValidator env config schema fs = (None, fs')"
  shows "files fs' =
           (files fs)(outPath env config schema \<mapsto> renderValidator env (Package config) schema)
         \<and> oplog fs' = oplog fs @
             [OpMkdirAll (OutputDir config), OpCreate (outPath env config schema),
              OpWrite (outPath env config schema) (renderValidator env (Package config) schema)]"
  using assms by (rule generateValidator_success)

theorem one_file_per_schema_witness:
  "fst (generateValidator (sampleEnv (File [] []) [])
          \<lparr>InputFile = ''models/invoice.go'', OutputDir = ''gen'', Package = ''gen'',
            Verbose = False\<rparr>
          \<lparr>TypeName = ''Invoice'', Fields = []\<rparr>
          (emptyFs\<lparr>files := [''gen/invoice_validator.go'' \<mapsto> ''package old'']\<rparr>)) = None
   \<and> dom (files (snd (generateValidator (sampleEnv (File [] []) [])
          \<lparr>InputFile = ''models/invoice.go'', OutputDir = ''gen'', Package = ''gen'',
            Verbose = False\<rparr>
          \<lparr>TypeName = ''Invoice'', Fields = []\<rparr>
          (emptyFs\<lparr>files := [''gen/invoice_validator.go'' \<mapsto> ''package old'']\<rparr>)))) =
       {''gen/invoice_validator.go''}
   \<and> files (snd (generateValidator (sampleEnv (File [] []) [])
          \<lparr>InputFile = ''models/invoice.go'', OutputDir = ''gen'', Package = ''gen'',
            Verbose = False\<rparr>
          \<lparr>TypeName = ''Invoice'', Fields = []\<rparr>
          (emptyFs\<lparr>files := [''gen/invoice_validator.go'' \<mapsto> ''package old'']\<rparr>)))
       ''gen/invoice_validator.go'' =
     Some (renderValidator (sampleEnv (File [] []) []) ''gen'' \<lparr>TypeName = ''Invoice'', Fields = []\<rparr>)"
proof -
  let ?e = "sampleEnv (File [] []) []"
  let ?c = "\<lparr>InputFile = ''models/invoice.go'', OutputDir = ''gen'', Package = ''gen'',
             Verbose = False\<rparr>"
  let ?s = "\<lparr>TypeName = ''Invoice'', Fields = []\<rparr>"
  let ?fs = "emptyFs\<lparr>files := [''gen/invoice_validator.go'' \<mapsto> ''package old'']\<rparr>"
  have ok: "fst (generateValidator ?e ?c ?s ?fs) = None"
    by (simp add: generateValidator_def sampleEnv_def Let_def)
  then have run: "generateValidator ?e ?c ?s ?fs = (None, snd (generateValidator ?e ?c ?s ?fs))"
    by (metis prod.collapse)
  have path: "outPath ?e ?c ?s = ''gen/invoice_validator.go''"
    by code_simp
  show ?thesis
    using one_file_per_schema [OF run] ok path
    by (simp add: emptyFs_def)
qed





section \<open>Emitting and extracting again\<close>

text \<open>
  C1. The round trip, on the field
  \<^verbatim>\<open>Field(func(u User) Address { return u.Address }, validate.Nested(addressSchema))\<close>:
  the extractor records the one call \<^verbatim>\<open>Nested(addressSchema)\<close>; the template puts a
  constructor named after the field type in front of the recorded calls; and the extractor,
  on the tree of the emitted text, records the two calls \<^verbatim>\<open>Address()\<close> and
  \<^verbatim>\<open>Nested(addressSchema)\<close>, since it leaves out a leading constructor only when it is
  \<^verbatim>\<open>validate.String()\<close> or \<^verbatim>\<open>validate.Int()\<close>.
\<close>

theorem constructor_is_emitted_twice:
  "extractValidationSchema
     (chain (builderRoot ''User'' [])
        [(''Field'',
          [FuncLit [Field [''u''] (Ident ''User'')] (Some [Field [] (Ident ''Address'')])
             [ReturnStmt [SelectorExpr (Ident ''u'') ''Address'']],
           CallExpr (SelectorExpr (Ident ''validate'') ''Nested'') [Ident ''addressSchema'']])]) =
     Some \<lparr>TypeName = ''User'',
           Fields = [\<lparr>Name = ''Address'', Type = ''Address'',
                      Validators = [\<lparr>Method = ''Nested'', Args = [''addressSchema'']\<rparr>]\<rparr>]\<rparr>
   \<and> renderField (sampleEnv (File [] []) []) ''User''
       \<lparr>Name = ''Address'', Type = ''Address'',
        Validators = [\<lparr>Method = ''Nested'', Args = [''addressSchema'']\<rparr>]\<rparr> =
     ''.'' @ [CHR 0x0A, CHR 0x09]
     @ ''Field(func(v User) Address { return v.Address }, validate.Address().Nested(addressSchema))''
   \<and> extractValidationSchema
     (chain (builderRoot ''User'' [])
        [(''Field'',
          [FuncLit [Field [''v''] (Ident ''User'')] (Some [Field [] (Ident ''Address'')])
             [ReturnStmt [SelectorExpr (Ident ''v'') ''Address'']],
           CallExpr
             (SelectorExpr (CallExpr (SelectorExpr (Ident ''validate'') ''Address'') []) ''Nested'')
             [Ident ''addressSchema'']])]) =
     Some \<lparr>TypeName = ''User'',
           Fields = [\<lparr>Name = ''Address'', Type = ''Address'',
                      Validators = [\<lparr>Method = ''Address'', Args = []\<rparr>,
                                    \<lparr>Method = ''Nested'', Args = [''addressSchema'']\<rparr>]\<rparr>]\<rparr>"
  by (simp add: chain_def methodCall_def builderRoot_def extractValidators_def
        isTypeConstructor_def extractArgs_def renderField_def renderCall_def renderArgs_def
        capitalizeFirst_def sampleEnv_def upperByte_def)

end
